theory Spec2Isabelle
  imports
    Main
    "HOL-Library.Sublist"
    "HOL-Library.Char_ord"
    "HOL-Library.List_Lexorder"
    "HOL-Library.Product_Lexorder"
begin

section \<open>The board constants of \<^verbatim>\<open>solution.py\<close>\<close>

text \<open>
  Python has no character type: iterating over a string yields its 1-character strings.
  A box name such as \<^verbatim>\<open>'A1'\<close> is a \<open>string\<close>; where the source iterates over the
  characters of a string (\<^verbatim>\<open>for r in ROWS\<close>, \<^verbatim>\<open>for digit in DIGITS\<close>,
  \<^verbatim>\<open>for value in values[box]\<close>) the loop variable is a \<open>char\<close> \<open>c\<close> and the
  1-character string is \<open>[c]\<close>.
\<close>

type_synonym box = string

definition DIGITS :: string where
  "DIGITS = ''123456789''"

definition COLS :: string where
  "COLS = ''123456789''"

definition ROWS :: string where
  "ROWS = ''ABCDEFGHI''"

text \<open>\<^verbatim>\<open>partition = lambda n, coll: [coll[i:i + n] for i in range(0, len(coll), n)]\<close>
  (used with \<open>n = 3\<close> only; \<^verbatim>\<open>range\<close> with step \<open>0\<close> would raise).\<close>

definition partition_coll :: "nat \<Rightarrow> 'a list \<Rightarrow> 'a list list" where
  "partition_coll n coll =
     [take n (drop i coll). i \<leftarrow> [0..<length coll], i mod n = 0]"

text \<open>\<^verbatim>\<open>cross = lambda a, b: [s + t for s in a for t in b]\<close>, on two strings.\<close>

definition cross :: "string \<Rightarrow> string \<Rightarrow> box list" where
  "cross a b = [[s, t]. s \<leftarrow> a, t \<leftarrow> b]"

definition DUNITS :: "box list list" where
  "DUNITS =
     [[[r, c]. (i, r) \<leftarrow> enumerate 1 ROWS, (j, c) \<leftarrow> enumerate 1 COLS, i + j = 10],
      [[r, c]. (i, r) \<leftarrow> enumerate 1 ROWS, (j, c) \<leftarrow> enumerate 1 COLS, i = j]]"

definition SUNITS :: "box list list" where
  "SUNITS = [cross rs cs. rs \<leftarrow> partition_coll 3 ROWS, cs \<leftarrow> partition_coll 3 COLS]"

definition RUNITS :: "box list list" where
  "RUNITS = [cross [r] COLS. r \<leftarrow> ROWS]"

definition CUNITS :: "box list list" where
  "CUNITS = [cross ROWS [c]. c \<leftarrow> COLS]"

definition BOXES :: "box list" where
  "BOXES = cross ROWS COLS"

definition UNITLIST :: "box list list" where
  "UNITLIST = DUNITS @ SUNITS @ RUNITS @ CUNITS"

text \<open>
  \<^verbatim>\<open>UNITS\<close> and \<^verbatim>\<open>PEERS\<close> are dicts keyed by the 81 boxes; the solver only ever
  indexes them with a box. \<^verbatim>\<open>sum(UNITS[box], [])\<close> concatenates the units.
\<close>

definition UNITS :: "box \<Rightarrow> box list list" where
  "UNITS box = [u \<leftarrow> UNITLIST. box \<in> set u]"

definition PEERS :: "box \<Rightarrow> box set" where
  "PEERS box = set (concat (UNITS box)) - set [box]"


section \<open>Grid states\<close>

text \<open>
  A grid state is the dict \<^verbatim>\<open>values\<close>. \<^verbatim>\<open>grid_values\<close> builds it with exactly
  the 81 keys of \<^verbatim>\<open>BOXES\<close>, inserted in that order, and every function of the solver
  reads and writes keys of \<^verbatim>\<open>BOXES\<close> only, never adding or deleting one. So a state is
  a function from box names to domain strings, \<^verbatim>\<open>values[box]\<close> is \<open>values box\<close>,
  iterating \<^verbatim>\<open>values.keys()\<close> or \<^verbatim>\<open>values.items()\<close> is iterating \<open>BOXES\<close>, and
  no \<^verbatim>\<open>KeyError\<close> can arise. What the function returns outside \<open>BOXES\<close> is never read.

  The module-level list \<^verbatim>\<open>assignments\<close>, to which \<^verbatim>\<open>assign_value\<close> appends a
  snapshot whenever the assigned string has length 1, is written but never read by the
  solver (only the optional visualisation reads it). It is not part of the state below.
\<close>

type_synonym grid = "box \<Rightarrow> string"

definition assign_value :: "grid \<Rightarrow> box \<Rightarrow> string \<Rightarrow> grid" where
  "assign_value values box v = values(box := v)"

text \<open>
  \<^verbatim>\<open>s.replace(old, new)\<close>: the non-overlapping occurrences of \<open>old\<close> in \<open>s\<close>, found
  from the left, are replaced by \<open>new\<close>; an empty \<open>old\<close> matches before every character
  and at the end.
\<close>

function replace :: "string \<Rightarrow> string \<Rightarrow> string \<Rightarrow> string" where
  "replace s old new =
     (if old = [] then new @ concat (map (\<lambda>c. c # new) s)
      else if s = [] then []
      else if prefix old s then new @ replace (drop (length old) s) old new
      else hd s # replace (tl s) old new)"
  by pat_completeness auto
termination
  by (relation "measure (\<lambda>(s, old, new). length s)") auto

declare replace.simps [simp del]

text \<open>\<^verbatim>\<open>sub in s\<close> on strings is the substring test.\<close>

definition str_in :: "string \<Rightarrow> string \<Rightarrow> bool" where
  "str_in sub s = sublist sub s"


section \<open>The three propagation rules\<close>

text \<open>
  \<^verbatim>\<open>Counter(xs).items()\<close>: the distinct elements of \<open>xs\<close> in order of first
  occurrence, each with its number of occurrences.
\<close>

definition Counter_items :: "'a list \<Rightarrow> ('a \<times> nat) list" where
  "Counter_items xs = [(x, count_list xs x). x \<leftarrow> rev (remdups (rev xs))]"

text \<open>
  One iteration of the outer loop of \<^verbatim>\<open>naked_twins\<close>. A \<^verbatim>\<open>frozenset\<close> of a string
  is the set of its characters. \<^verbatim>\<open>reduce\<close> folds \<^verbatim>\<open>s.replace(d, '')\<close> over the
  union of the twins; Python fixes no iteration order for a set, the model takes the
  ascending one (lemma \<open>fold_replace_filter\<close> shows that the order is immaterial).
\<close>

definition naked_twins_unit :: "box list \<Rightarrow> grid \<Rightarrow> grid" where
  "naked_twins_unit unit values =
     (let pairs = [(box, set (values box)). box \<leftarrow> unit, length (values box) = 2];
          twins = [pair. (pair, n) \<leftarrow> Counter_items (map snd pairs), n = 2]
      in if length twins = 0 then values
         else fold (\<lambda>box vals.
                let digits = vals box in
                if length digits = 1 then vals
                else if set (vals box) \<in> set twins then vals
                else assign_value vals box
                       (fold (\<lambda>d s. replace s [d] [])
                          (sorted_list_of_set (\<Union> (set twins))) digits))
              unit values)"

definition naked_twins :: "grid \<Rightarrow> grid" where
  "naked_twins values = fold naked_twins_unit UNITLIST values"

text \<open>
  \<^verbatim>\<open>eliminate\<close>: the dict \<^verbatim>\<open>solved\<close> is a snapshot taken before the loops. The
  peers of a cell are a Python set, iterated here in ascending order (the updates of
  one inner loop touch distinct boxes, so their order is immaterial).
\<close>

definition eliminate :: "grid \<Rightarrow> grid" where
  "eliminate values =
     (let solved = [(cell, values cell). cell \<leftarrow> BOXES, length (values cell) = 1]
      in fold (\<lambda>(cell, digit) vals.
                 fold (\<lambda>peer vals'. assign_value vals' peer (replace (vals' peer) digit []))
                   (sorted_list_of_set (PEERS cell)) vals)
           solved values)"

definition only_choice :: "grid \<Rightarrow> grid" where
  "only_choice values =
     fold (\<lambda>unit vals.
        fold (\<lambda>digit vals'.
           let only = [box \<leftarrow> unit. str_in [digit] (vals' box)]
           in if length only = 1 then assign_value vals' (only ! 0) [digit] else vals')
          DIGITS vals)
       UNITLIST values"


section \<open>Domains only shrink\<close>

text \<open>\<open>shrinks v' v\<close>: every domain of \<open>v'\<close> is obtained from the domain of the same
  box in \<open>v\<close> by deleting characters.\<close>

definition shrinks :: "grid \<Rightarrow> grid \<Rightarrow> bool" where
  "shrinks v' v = (\<forall>b. subseq (v' b) (v b))"

lemma shrinks_refl: "shrinks v v"
  by (simp add: shrinks_def)

lemma shrinks_trans: "shrinks v'' v' \<Longrightarrow> shrinks v' v \<Longrightarrow> shrinks v'' v"
  unfolding shrinks_def by (meson subseq_order.order_trans)

lemma shrinks_fold:
  assumes "\<And>x s. x \<in> set xs \<Longrightarrow> shrinks (f x s) s"
  shows "shrinks (fold f xs v) v"
  using assms
proof (induction xs arbitrary: v)
  case Nil
  show ?case by (simp add: shrinks_refl)
next
  case (Cons x xs)
  have "shrinks (fold f xs (f x v)) (f x v)" using Cons by simp
  moreover have "shrinks (f x v) v" using Cons.prems by simp
  ultimately show ?case using shrinks_trans by fastforce
qed

lemma shrinks_assign:
  "subseq x (v box) \<Longrightarrow> shrinks (assign_value v box x) v"
  by (simp add: shrinks_def assign_value_def)

lemma replace_char: "replace s [d] [] = filter (\<lambda>c. c \<noteq> d) s"
proof (induction s)
  case Nil
  show ?case by (subst replace.simps) simp
next
  case (Cons c cs)
  show ?case
    by (subst replace.simps) (use Cons in \<open>auto simp: prefix_Cons\<close>)
qed

lemma replace_subseq: "subseq (replace s old []) s"
proof (induction s old "[] :: string" rule: replace.induct)
  case (1 s old)
  show ?case
  proof (cases "old = []")
    case True
    have "concat (map (\<lambda>c. [c]) s) = s" by (induction s) auto
    then show ?thesis using True by (subst replace.simps) simp
  next
    case False
    note old = this
    show ?thesis
    proof (cases s)
      case Nil
      then show ?thesis by (subst replace.simps) simp
    next
      case (Cons c cs)
      show ?thesis
      proof (cases "prefix old s")
        case True
        have "subseq (replace (drop (length old) s) old []) (drop (length old) s)"
          using 1(1) old Cons True by simp
        moreover have "subseq (drop (length old) s) s"
          by (metis append_take_drop_id subseq_order.order_refl list_emb_append2)
        ultimately have "subseq (replace (drop (length old) s) old []) s"
          using subseq_order.order_trans by blast
        then show ?thesis using old Cons True by (subst replace.simps) simp
      next
        case False
        have "subseq (replace (tl s) old []) (tl s)"
          using 1(2) old Cons False by simp
        then show ?thesis using old Cons False by (subst replace.simps) simp
      qed
    qed
  qed
qed

lemma str_in_char: "str_in [d] s \<longleftrightarrow> d \<in> set s"
  unfolding str_in_def
proof (induction s)
  case Nil
  show ?case by simp
next
  case (Cons c cs)
  then show ?case by (auto simp: sublist_Cons_right prefix_Cons)
qed

lemma subseq_singleton: "d \<in> set s \<Longrightarrow> subseq [d] s"
  by (induction s) auto

lemma fold_replace_filter:
  "fold (\<lambda>d s. replace s [d] []) ds s = filter (\<lambda>c. c \<notin> set ds) s"
proof (induction ds arbitrary: s)
  case Nil
  show ?case by simp
next
  case (Cons d ds)
  have "fold (\<lambda>d s. replace s [d] []) (d # ds) s
          = fold (\<lambda>d s. replace s [d] []) ds (replace s [d] [])"
    by simp
  also have "\<dots> = filter (\<lambda>c. c \<notin> set ds) (replace s [d] [])"
    by (rule Cons)
  also have "\<dots> = filter (\<lambda>c. c \<notin> set (d # ds)) s"
    by (auto simp: replace_char intro: filter_cong)
  finally show ?case .
qed

lemma eliminate_shrinks: "shrinks (eliminate v) v"
  unfolding eliminate_def Let_def
  by (intro shrinks_fold) (auto intro!: shrinks_fold shrinks_assign replace_subseq)

lemma only_choice_step_shrinks:
  "shrinks (let only = [box \<leftarrow> unit. str_in [digit] (v box)]
            in if length only = 1 then assign_value v (only ! 0) [digit] else v) v"
proof (cases "length [box \<leftarrow> unit. str_in [digit] (v box)] = 1")
  case False
  then show ?thesis by (simp add: Let_def shrinks_refl)
next
  case True
  let ?only = "[box \<leftarrow> unit. str_in [digit] (v box)]"
  have "?only ! 0 \<in> set ?only" using True by (intro nth_mem) simp
  then have "digit \<in> set (v (?only ! 0))" by (simp add: str_in_char)
  then show ?thesis using True
    by (simp add: Let_def shrinks_assign subseq_singleton)
qed

lemma only_choice_shrinks: "shrinks (only_choice v) v"
  unfolding only_choice_def
  by (intro shrinks_fold only_choice_step_shrinks)

lemma naked_twins_unit_shrinks: "shrinks (naked_twins_unit u v) v"
proof -
  have step: "shrinks (if length (s box) = 1 then s
                       else if set (s box) \<in> T then s
                       else assign_value s box (fold (\<lambda>d s. replace s [d] []) ds (s box))) s"
    for s :: grid and box T ds
    by (simp add: shrinks_refl shrinks_assign fold_replace_filter)
  show ?thesis
    unfolding naked_twins_unit_def Let_def
    by (simp only: shrinks_refl shrinks_fold step if_split [where P = "\<lambda>x. shrinks x v"] simp_thms)
qed

lemma naked_twins_shrinks: "shrinks (naked_twins v) v"
  unfolding naked_twins_def by (intro shrinks_fold naked_twins_unit_shrinks)


section \<open>The fixpoint loop and the search\<close>

text \<open>The sum of the domain lengths over the 81 boxes bounds both loops.\<close>

definition total_len :: "grid \<Rightarrow> nat" where
  "total_len v = sum_list (map (\<lambda>b. length (v b)) BOXES)"

lemma shrinks_length: "shrinks v' v \<Longrightarrow> length (v' b) \<le> length (v b)"
  unfolding shrinks_def
  by (metis list_emb_length)

lemma sum_list_mono_strict:
  fixes f g :: "'a \<Rightarrow> nat"
  assumes "\<And>x. x \<in> set xs \<Longrightarrow> f x \<le> g x" and "\<exists>x \<in> set xs. f x < g x"
  shows "sum_list (map f xs) < sum_list (map g xs)"
  using assms
proof (induction xs)
  case Nil
  then show ?case by simp
next
  case (Cons x xs)
  have le: "sum_list (map f xs) \<le> sum_list (map g xs)"
    using Cons.prems(1) by (intro sum_list_mono) simp
  show ?case
  proof (cases "f x < g x")
    case True
    then show ?thesis using le by simp
  next
    case False
    then have "\<exists>y \<in> set xs. f y < g y" using Cons.prems(2) by auto
    then have "sum_list (map f xs) < sum_list (map g xs)"
      using Cons.IH Cons.prems(1) by simp
    moreover have "f x \<le> g x" using Cons.prems(1) by simp
    ultimately show ?thesis by simp
  qed
qed

lemma total_len_mono: "shrinks v' v \<Longrightarrow> total_len v' \<le> total_len v"
  unfolding total_len_def by (intro sum_list_mono shrinks_length)

lemma total_len_less:
  assumes "shrinks v' v" and "b \<in> set BOXES" and "length (v' b) < length (v b)"
  shows "total_len v' < total_len v"
  unfolding total_len_def
  using assms by (intro sum_list_mono_strict) (auto simp: shrinks_length)

lemma pass_shrinks: "shrinks (naked_twins (only_choice (eliminate v))) v"
  by (meson shrinks_trans naked_twins_shrinks only_choice_shrinks eliminate_shrinks)

lemma pass_progress:
  assumes "length [box \<leftarrow> BOXES. length (v box) = 1]
             \<noteq> length [box \<leftarrow> BOXES. length (naked_twins (only_choice (eliminate v)) box) = 1]"
  shows "total_len (naked_twins (only_choice (eliminate v))) < total_len v"
proof -
  let ?v' = "naked_twins (only_choice (eliminate v))"
  have "\<exists>b \<in> set BOXES. length (?v' b) \<noteq> length (v b)"
  proof (rule ccontr)
    assume "\<not> ?thesis"
    then have "[box \<leftarrow> BOXES. length (v box) = 1] = [box \<leftarrow> BOXES. length (?v' box) = 1]"
      by (intro filter_cong) auto
    then show False using assms by simp
  qed
  then obtain b where b: "b \<in> set BOXES" "length (?v' b) \<noteq> length (v b)" by blast
  then have "length (?v' b) < length (v b)"
    using shrinks_length [OF pass_shrinks, of v b] by simp
  then show ?thesis using total_len_less [OF pass_shrinks b(1)] by simp
qed

text \<open>
  \<^verbatim>\<open>reduce_puzzle\<close>: one iteration of the \<^verbatim>\<open>while not stalled\<close> loop per call.
  \<^verbatim>\<open>return False\<close> is \<open>None\<close>; the test of \<^verbatim>\<open>stalled\<close> at the head of the next
  iteration comes after the sanity check at the end of the body.
\<close>

function reduce_puzzle :: "grid \<Rightarrow> grid option" where
  "reduce_puzzle values =
     (let solved_values_before = length [box \<leftarrow> BOXES. length (values box) = 1];
          values1 = eliminate values;
          values2 = only_choice values1;
          values3 = naked_twins values2;
          solved_values_after = length [box \<leftarrow> BOXES. length (values3 box) = 1];
          stalled = (solved_values_before = solved_values_after)
      in if length [box \<leftarrow> BOXES. length (values3 box) = 0] \<noteq> 0 then None
         else if stalled then Some values3
         else reduce_puzzle values3)"
  by pat_completeness auto
termination
  by (relation "measure total_len") (auto intro: pass_progress)

declare reduce_puzzle.simps [simp del]

text \<open>Names for the parts of one iteration, and the loop unfolded once.\<close>

definition one_pass :: "grid \<Rightarrow> grid" where
  "one_pass v = naked_twins (only_choice (eliminate v))"

definition solved_count :: "grid \<Rightarrow> nat" where
  "solved_count v = length [box \<leftarrow> BOXES. length (v box) = 1]"

definition has_empty :: "grid \<Rightarrow> bool" where
  "has_empty v = (length [box \<leftarrow> BOXES. length (v box) = 0] \<noteq> 0)"

lemma reduce_puzzle_unfold:
  "reduce_puzzle v =
     (if has_empty (one_pass v) then None
      else if solved_count v = solved_count (one_pass v) then Some (one_pass v)
      else reduce_puzzle (one_pass v))"
  by (subst reduce_puzzle.simps)
     (simp only: Let_def has_empty_def solved_count_def one_pass_def)

lemma reduce_puzzle_induct [case_names pass]:
  assumes "\<And>v. (\<not> has_empty (one_pass v) \<Longrightarrow> solved_count v \<noteq> solved_count (one_pass v)
                    \<Longrightarrow> P (one_pass v)) \<Longrightarrow> P v"
  shows "P v"
proof (induction v rule: reduce_puzzle.induct)
  case (1 v)
  show ?case
  proof (rule assms)
    assume "\<not> has_empty (one_pass v)" "solved_count v \<noteq> solved_count (one_pass v)"
    then show "P (one_pass v)"
      unfolding has_empty_def solved_count_def one_pass_def
      by (intro "1.IH" [OF refl refl refl refl refl refl]) auto
  qed
qed

lemma one_pass_shrinks: "shrinks (one_pass v) v"
  unfolding one_pass_def by (rule pass_shrinks)

lemma reduce_puzzle_shrinks: "reduce_puzzle v = Some v' \<Longrightarrow> shrinks v' v"
proof (induction v rule: reduce_puzzle_induct)
  case (pass v)
  show ?case
  proof (cases "solved_count v = solved_count (one_pass v)")
    case True
    then have "v' = one_pass v"
      using pass.prems by (subst (asm) reduce_puzzle_unfold) (simp split: if_splits)
    then show ?thesis by (simp add: one_pass_shrinks)
  next
    case False
    then have "\<not> has_empty (one_pass v)" "reduce_puzzle (one_pass v) = Some v'"
      using pass.prems by (subst (asm) reduce_puzzle_unfold, simp split: if_splits)+
    then have "shrinks v' (one_pass v)" using pass.IH False by simp
    then show ?thesis using one_pass_shrinks shrinks_trans by blast
  qed
qed

text \<open>
  The result of \<^verbatim>\<open>search\<close>: a dict, \<^verbatim>\<open>False\<close> (propagation found a contradiction)
  or \<^verbatim>\<open>None\<close> (the \<^verbatim>\<open>for\<close> loop ended without a truthy result and the function
  fell off its end). A dict with 81 keys is truthy, \<^verbatim>\<open>False\<close> and \<^verbatim>\<open>None\<close> are not.
\<close>

datatype result = Solved grid | RFalse | RNone

text \<open>The \<^verbatim>\<open>for value in ...: result = ...; if result: return result\<close> loop.\<close>

primrec for_result :: "('a \<Rightarrow> result) \<Rightarrow> 'a list \<Rightarrow> result" where
  "for_result f [] = RNone"
| "for_result f (x # xs) =
     (case f x of Solved r \<Rightarrow> Solved r | RFalse \<Rightarrow> for_result f xs | RNone \<Rightarrow> for_result f xs)"

lemma for_result_cong [fundef_cong]:
  "xs = ys \<Longrightarrow> (\<And>x. x \<in> set ys \<Longrightarrow> f x = g x) \<Longrightarrow> for_result f xs = for_result g ys"
  by (induction ys arbitrary: xs) (auto split: result.splits)

text \<open>
  \<^verbatim>\<open>min(free)\<close> on a non-empty list: the first least element. The elements are the
  2-element lists \<^verbatim>\<open>[len, box]\<close>, which Python compares lexicographically, the strings
  by code point; they are pairs here, under the lexicographic order.
\<close>

definition py_min :: "'a::linorder \<Rightarrow> 'a list \<Rightarrow> 'a" where
  "py_min x xs = fold (\<lambda>y m. if y < m then y else m) xs x"

lemma py_min_mem: "py_min x xs \<in> set (x # xs)"
  unfolding py_min_def
proof (induction xs arbitrary: x)
  case Nil
  show ?case by simp
next
  case (Cons y ys)
  show ?case using Cons [of y] Cons [of x] by auto
qed

function search :: "grid \<Rightarrow> result" where
  "search values0 =
     (case reduce_puzzle values0 of
        None \<Rightarrow> RFalse
      | Some values \<Rightarrow>
          (case [(length (values box), box). box \<leftarrow> BOXES, length (values box) > 1] of
             [] \<Rightarrow> Solved values
           | f # fs \<Rightarrow>
               (let (n, box) = py_min f fs
                in for_result (\<lambda>value. search (assign_value values box [value]))
                     (values box))))"
  by pat_completeness auto
termination
proof (relation "measure total_len")
  show "wf (measure total_len)" by simp
next
  fix values0 "values" :: grid and f :: "nat \<times> box" and fs nbox n box c
  assume red: "reduce_puzzle values0 = Some values"
    and free: "[(length (values box), box). box \<leftarrow> BOXES, length (values box) > 1] = f # fs"
    and nbox: "nbox = py_min f fs" "(n, box) = nbox"
    and c: "c \<in> set (values box)"
  have "(n, box) \<in> set [(length (values box), box). box \<leftarrow> BOXES, length (values box) > 1]"
    using py_min_mem [of f fs] nbox free by simp
  then have box: "box \<in> set BOXES" "length (values box) > 1" by auto
  have "shrinks (assign_value values box [c]) values"
    using c by (intro shrinks_assign subseq_singleton)
  moreover have "length (assign_value values box [c] box) < length (values box)"
    using box(2) by (simp add: assign_value_def)
  ultimately have "total_len (assign_value values box [c]) < total_len values"
    using box(1) total_len_less by blast
  also have "\<dots> \<le> total_len values0"
    using red by (intro total_len_mono reduce_puzzle_shrinks)
  finally show "(assign_value values box [c], values0) \<in> measure total_len" by simp
qed

declare search.simps [simp del]


section \<open>Parsing and the entry point\<close>

datatype error = AssertionError

text \<open>\<^verbatim>\<open>dict(pairs)\<close>: later pairs override earlier ones. No key is read outside the
  pairs; the function is the empty string there.\<close>

definition dict :: "(box \<times> string) list \<Rightarrow> grid" where
  "dict kvs = fold (\<lambda>(k, v) d. d(k := v)) kvs (\<lambda>_. [])"

text \<open>
  \<^verbatim>\<open>grid_values\<close>, with its two \<^verbatim>\<open>assert\<close> statements as the error
  \<open>AssertionError\<close> (the interpreter run without \<^verbatim>\<open>-O\<close>). \<^verbatim>\<open>v in DIGITS\<close> is
  the substring test. \<^verbatim>\<open>v is DIGITS\<close> is object identity; it can hold only of a string
  equal to \<^verbatim>\<open>DIGITS\<close>, which passes the substring test already, so the disjunction
  has the same value with equality in its place.
\<close>

definition grid_values :: "string \<Rightarrow> error + grid" where
  "grid_values grid =
     (let values = map (\<lambda>c. if c = CHR ''.'' then DIGITS else [c]) grid
      in if length values \<noteq> 81 then Inl AssertionError
         else if \<not> list_all (\<lambda>v. str_in v DIGITS \<or> v = DIGITS) values then Inl AssertionError
         else Inr (dict (zip BOXES values)))"

definition solve :: "string \<Rightarrow> error + result" where
  "solve grid =
     (case grid_values grid of
        Inl e \<Rightarrow> Inl e
      | Inr values \<Rightarrow> Inr (search values))"


section \<open>The constraint graph, evaluated\<close>

lemma BOXES_eval: "BOXES = [''A1'', ''A2'', ''A3'', ''A4'', ''A5'', ''A6'', ''A7'', ''A8'', ''A9'',
 ''B1'', ''B2'', ''B3'', ''B4'', ''B5'', ''B6'', ''B7'', ''B8'', ''B9'',
 ''C1'', ''C2'', ''C3'', ''C4'', ''C5'', ''C6'', ''C7'', ''C8'', ''C9'',
 ''D1'', ''D2'', ''D3'', ''D4'', ''D5'', ''D6'', ''D7'', ''D8'', ''D9'',
 ''E1'', ''E2'', ''E3'', ''E4'', ''E5'', ''E6'', ''E7'', ''E8'', ''E9'',
 ''F1'', ''F2'', ''F3'', ''F4'', ''F5'', ''F6'', ''F7'', ''F8'', ''F9'',
 ''G1'', ''G2'', ''G3'', ''G4'', ''G5'', ''G6'', ''G7'', ''G8'', ''G9'',
 ''H1'', ''H2'', ''H3'', ''H4'', ''H5'', ''H6'', ''H7'', ''H8'', ''H9'',
 ''I1'', ''I2'', ''I3'', ''I4'', ''I5'', ''I6'', ''I7'', ''I8'', ''I9'']"
  by (simp add: BOXES_def cross_def ROWS_def COLS_def)

lemma DUNITS_eval: "DUNITS =
 [[''A9'', ''B8'', ''C7'', ''D6'', ''E5'', ''F4'', ''G3'', ''H2'', ''I1''],
  [''A1'', ''B2'', ''C3'', ''D4'', ''E5'', ''F6'', ''G7'', ''H8'', ''I9'']]"
  by code_simp

lemma SUNITS_eval: "SUNITS =
 [[''A1'', ''A2'', ''A3'', ''B1'', ''B2'', ''B3'', ''C1'', ''C2'', ''C3''],
  [''A4'', ''A5'', ''A6'', ''B4'', ''B5'', ''B6'', ''C4'', ''C5'', ''C6''],
  [''A7'', ''A8'', ''A9'', ''B7'', ''B8'', ''B9'', ''C7'', ''C8'', ''C9''],
  [''D1'', ''D2'', ''D3'', ''E1'', ''E2'', ''E3'', ''F1'', ''F2'', ''F3''],
  [''D4'', ''D5'', ''D6'', ''E4'', ''E5'', ''E6'', ''F4'', ''F5'', ''F6''],
  [''D7'', ''D8'', ''D9'', ''E7'', ''E8'', ''E9'', ''F7'', ''F8'', ''F9''],
  [''G1'', ''G2'', ''G3'', ''H1'', ''H2'', ''H3'', ''I1'', ''I2'', ''I3''],
  [''G4'', ''G5'', ''G6'', ''H4'', ''H5'', ''H6'', ''I4'', ''I5'', ''I6''],
  [''G7'', ''G8'', ''G9'', ''H7'', ''H8'', ''H9'', ''I7'', ''I8'', ''I9'']]"
  by code_simp

lemma RUNITS_eval: "RUNITS =
 [[''A1'', ''A2'', ''A3'', ''A4'', ''A5'', ''A6'', ''A7'', ''A8'', ''A9''],
  [''B1'', ''B2'', ''B3'', ''B4'', ''B5'', ''B6'', ''B7'', ''B8'', ''B9''],
  [''C1'', ''C2'', ''C3'', ''C4'', ''C5'', ''C6'', ''C7'', ''C8'', ''C9''],
  [''D1'', ''D2'', ''D3'', ''D4'', ''D5'', ''D6'', ''D7'', ''D8'', ''D9''],
  [''E1'', ''E2'', ''E3'', ''E4'', ''E5'', ''E6'', ''E7'', ''E8'', ''E9''],
  [''F1'', ''F2'', ''F3'', ''F4'', ''F5'', ''F6'', ''F7'', ''F8'', ''F9''],
  [''G1'', ''G2'', ''G3'', ''G4'', ''G5'', ''G6'', ''G7'', ''G8'', ''G9''],
  [''H1'', ''H2'', ''H3'', ''H4'', ''H5'', ''H6'', ''H7'', ''H8'', ''H9''],
  [''I1'', ''I2'', ''I3'', ''I4'', ''I5'', ''I6'', ''I7'', ''I8'', ''I9'']]"
  by code_simp

lemma CUNITS_eval: "CUNITS =
 [[''A1'', ''B1'', ''C1'', ''D1'', ''E1'', ''F1'', ''G1'', ''H1'', ''I1''],
  [''A2'', ''B2'', ''C2'', ''D2'', ''E2'', ''F2'', ''G2'', ''H2'', ''I2''],
  [''A3'', ''B3'', ''C3'', ''D3'', ''E3'', ''F3'', ''G3'', ''H3'', ''I3''],
  [''A4'', ''B4'', ''C4'', ''D4'', ''E4'', ''F4'', ''G4'', ''H4'', ''I4''],
  [''A5'', ''B5'', ''C5'', ''D5'', ''E5'', ''F5'', ''G5'', ''H5'', ''I5''],
  [''A6'', ''B6'', ''C6'', ''D6'', ''E6'', ''F6'', ''G6'', ''H6'', ''I6''],
  [''A7'', ''B7'', ''C7'', ''D7'', ''E7'', ''F7'', ''G7'', ''H7'', ''I7''],
  [''A8'', ''B8'', ''C8'', ''D8'', ''E8'', ''F8'', ''G8'', ''H8'', ''I8''],
  [''A9'', ''B9'', ''C9'', ''D9'', ''E9'', ''F9'', ''G9'', ''H9'', ''I9'']]"
  by code_simp

lemma UNITLIST_eval:
  "UNITLIST =
 [[''A9'', ''B8'', ''C7'', ''D6'', ''E5'', ''F4'', ''G3'', ''H2'', ''I1''],
  [''A1'', ''B2'', ''C3'', ''D4'', ''E5'', ''F6'', ''G7'', ''H8'', ''I9''],
  [''A1'', ''A2'', ''A3'', ''B1'', ''B2'', ''B3'', ''C1'', ''C2'', ''C3''],
  [''A4'', ''A5'', ''A6'', ''B4'', ''B5'', ''B6'', ''C4'', ''C5'', ''C6''],
  [''A7'', ''A8'', ''A9'', ''B7'', ''B8'', ''B9'', ''C7'', ''C8'', ''C9''],
  [''D1'', ''D2'', ''D3'', ''E1'', ''E2'', ''E3'', ''F1'', ''F2'', ''F3''],
  [''D4'', ''D5'', ''D6'', ''E4'', ''E5'', ''E6'', ''F4'', ''F5'', ''F6''],
  [''D7'', ''D8'', ''D9'', ''E7'', ''E8'', ''E9'', ''F7'', ''F8'', ''F9''],
  [''G1'', ''G2'', ''G3'', ''H1'', ''H2'', ''H3'', ''I1'', ''I2'', ''I3''],
  [''G4'', ''G5'', ''G6'', ''H4'', ''H5'', ''H6'', ''I4'', ''I5'', ''I6''],
  [''G7'', ''G8'', ''G9'', ''H7'', ''H8'', ''H9'', ''I7'', ''I8'', ''I9''],
  [''A1'', ''A2'', ''A3'', ''A4'', ''A5'', ''A6'', ''A7'', ''A8'', ''A9''],
  [''B1'', ''B2'', ''B3'', ''B4'', ''B5'', ''B6'', ''B7'', ''B8'', ''B9''],
  [''C1'', ''C2'', ''C3'', ''C4'', ''C5'', ''C6'', ''C7'', ''C8'', ''C9''],
  [''D1'', ''D2'', ''D3'', ''D4'', ''D5'', ''D6'', ''D7'', ''D8'', ''D9''],
  [''E1'', ''E2'', ''E3'', ''E4'', ''E5'', ''E6'', ''E7'', ''E8'', ''E9''],
  [''F1'', ''F2'', ''F3'', ''F4'', ''F5'', ''F6'', ''F7'', ''F8'', ''F9''],
  [''G1'', ''G2'', ''G3'', ''G4'', ''G5'', ''G6'', ''G7'', ''G8'', ''G9''],
  [''H1'', ''H2'', ''H3'', ''H4'', ''H5'', ''H6'', ''H7'', ''H8'', ''H9''],
  [''I1'', ''I2'', ''I3'', ''I4'', ''I5'', ''I6'', ''I7'', ''I8'', ''I9''],
  [''A1'', ''B1'', ''C1'', ''D1'', ''E1'', ''F1'', ''G1'', ''H1'', ''I1''],
  [''A2'', ''B2'', ''C2'', ''D2'', ''E2'', ''F2'', ''G2'', ''H2'', ''I2''],
  [''A3'', ''B3'', ''C3'', ''D3'', ''E3'', ''F3'', ''G3'', ''H3'', ''I3''],
  [''A4'', ''B4'', ''C4'', ''D4'', ''E4'', ''F4'', ''G4'', ''H4'', ''I4''],
  [''A5'', ''B5'', ''C5'', ''D5'', ''E5'', ''F5'', ''G5'', ''H5'', ''I5''],
  [''A6'', ''B6'', ''C6'', ''D6'', ''E6'', ''F6'', ''G6'', ''H6'', ''I6''],
  [''A7'', ''B7'', ''C7'', ''D7'', ''E7'', ''F7'', ''G7'', ''H7'', ''I7''],
  [''A8'', ''B8'', ''C8'', ''D8'', ''E8'', ''F8'', ''G8'', ''H8'', ''I8''],
  [''A9'', ''B9'', ''C9'', ''D9'', ''E9'', ''F9'', ''G9'', ''H9'', ''I9'']]"
  unfolding UNITLIST_def DUNITS_eval SUNITS_eval RUNITS_eval CUNITS_eval by simp

lemma distinct_BOXES: "distinct BOXES"
  by code_simp

lemma length_BOXES: "length BOXES = 81"
  by (simp add: BOXES_eval)

lemma units_wf: "\<forall>u \<in> set UNITLIST. distinct u \<and> length u = 9 \<and> set u \<subseteq> set BOXES"
  by code_simp

lemma unit_peers:
  assumes "u \<in> set UNITLIST" "b \<in> set u" "p \<in> set u" "p \<noteq> b"
  shows "p \<in> PEERS b"
  using assms unfolding PEERS_def UNITS_def by auto

lemma PEERS_iff: "p \<in> PEERS b \<longleftrightarrow> p \<noteq> b \<and> (\<exists>u \<in> set UNITLIST. b \<in> set u \<and> p \<in> set u)"
  unfolding PEERS_def UNITS_def by auto

lemma PEERS_sym: "p \<in> PEERS b \<longleftrightarrow> b \<in> PEERS p"
  unfolding PEERS_iff by auto

lemma finite_PEERS: "finite (PEERS b)"
  unfolding PEERS_def by simp

lemma PEERS_BOXES: "p \<in> PEERS b \<Longrightarrow> p \<in> set BOXES"
  unfolding PEERS_iff using units_wf by auto


section \<open>Parsing\<close>

lemma dict_map_of:
  "dict kvs k = (case map_of (rev kvs) k of Some v \<Rightarrow> v | None \<Rightarrow> [])"
  unfolding dict_def
  by (induction kvs rule: rev_induct) (auto split: option.splits)

lemma dict_zip_nth:
  assumes "distinct ks" "length ks = length vs" "i < length ks"
  shows "dict (zip ks vs) (ks ! i) = vs ! i"
proof -
  have d: "distinct (map fst (rev (zip ks vs)))"
    using assms by (simp add: rev_map [symmetric] map_fst_zip)
  have "(ks ! i, vs ! i) \<in> set (rev (zip ks vs))"
    using assms by (auto simp: set_zip)
  then have "map_of (rev (zip ks vs)) (ks ! i) = Some (vs ! i)"
    using d by (intro map_of_is_SomeI)
  then show ?thesis by (simp add: dict_map_of)
qed

lemma dict_zip_notin:
  assumes "k \<notin> set ks" "length ks = length vs"
  shows "dict (zip ks vs) k = []"
proof -
  have "k \<notin> fst ` set (rev (zip ks vs))"
    using assms by (auto dest: set_zip_leftD)
  then have "map_of (rev (zip ks vs)) k = None"
    by (simp add: map_of_eq_None_iff)
  then show ?thesis by (simp add: dict_map_of)
qed

definition cell_of :: "char \<Rightarrow> string" where
  "cell_of c = (if c = CHR ''.'' then DIGITS else [c])"

definition well_formed :: "string \<Rightarrow> bool" where
  "well_formed grid \<longleftrightarrow> length grid = 81 \<and> (\<forall>c \<in> set grid. c \<in> set DIGITS \<or> c = CHR ''.'')"

lemma str_in_DIGITS: "str_in (cell_of c) DIGITS \<or> cell_of c = DIGITS \<longleftrightarrow> c \<in> set DIGITS \<or> c = CHR ''.''"
  unfolding cell_of_def by (auto simp: str_in_char) (simp add: DIGITS_def)

lemma grid_values_ok:
  assumes "well_formed grid"
  shows "grid_values grid = Inr (dict (zip BOXES (map cell_of grid)))"
proof -
  have "list_all (\<lambda>v. str_in v DIGITS \<or> v = DIGITS) (map cell_of grid)"
    using assms unfolding well_formed_def list_all_iff by (auto simp: str_in_DIGITS)
  then show ?thesis
    using assms unfolding grid_values_def well_formed_def Let_def cell_of_def [abs_def]
    by simp
qed

lemma grid_values_bad:
  assumes "\<not> well_formed grid"
  shows "grid_values grid = Inl AssertionError"
proof (cases "length grid = 81")
  case False
  then show ?thesis unfolding grid_values_def Let_def by simp
next
  case True
  then obtain c where "c \<in> set grid" "\<not> (c \<in> set DIGITS \<or> c = CHR ''.'')"
    using assms unfolding well_formed_def by auto
  then have "\<not> list_all (\<lambda>v. str_in v DIGITS \<or> v = DIGITS) (map cell_of grid)"
    unfolding list_all_iff using str_in_DIGITS by auto
  then show ?thesis
    unfolding grid_values_def Let_def cell_of_def [abs_def] by simp
qed

lemma grid_values_cell:
  assumes "well_formed grid" "i < 81"
  shows "dict (zip BOXES (map cell_of grid)) (BOXES ! i) = cell_of (grid ! i)"
  using assms dict_zip_nth [OF distinct_BOXES, of "map cell_of grid" i]
  by (simp add: well_formed_def length_BOXES)


section \<open>Claims about the constraint graph and parsing\<close>

text \<open>
  C9, as stated: every one of the 81 cells belongs to exactly 4 units. It fails at the
  cell \<^verbatim>\<open>'A2'\<close>, which is on no diagonal and belongs to 3 units.
\<close>

theorem units_of_cell_counterexample:
  "''A2'' \<in> set BOXES \<and> length (UNITS ''A2'') \<noteq> 4"
  by code_simp

text \<open>
  C9, amended: there are 29 units; each of the 81 cells is in exactly one row unit, one
  column unit and one box unit and in at most two diagonal units, so it belongs to
  3 units plus the number of diagonals through it: 3 off the diagonals, 4 on one
  diagonal, and 5 for the centre cell \<^verbatim>\<open>'E5'\<close>, the only cell on both diagonals.
\<close>

theorem units_of_cell:
  "length UNITLIST = 29 \<and> length BOXES = 81 \<and>
   (\<forall>box \<in> set BOXES.
        length [u \<leftarrow> RUNITS. box \<in> set u] = 1
      \<and> length [u \<leftarrow> CUNITS. box \<in> set u] = 1
      \<and> length [u \<leftarrow> SUNITS. box \<in> set u] = 1
      \<and> length [u \<leftarrow> DUNITS. box \<in> set u] \<le> 2
      \<and> length (UNITS box) = 3 + length [u \<leftarrow> DUNITS. box \<in> set u]) \<and>
   [box \<leftarrow> BOXES. length [u \<leftarrow> DUNITS. box \<in> set u] = 2] = [''E5'']"
  by code_simp

theorem units_of_cell_witness:
  "''E5'' \<in> set BOXES \<and> length (UNITS ''E5'') = 5 \<and>
   ''A1'' \<in> set BOXES \<and> length (UNITS ''A1'') = 4"
proof -
  have b: "''E5'' \<in> set BOXES" "''A1'' \<in> set BOXES" by (simp_all add: BOXES_eval)
  have d: "length [u \<leftarrow> DUNITS. ''E5'' \<in> set u] = 2" "length [u \<leftarrow> DUNITS. ''A1'' \<in> set u] = 1"
    by (simp_all add: DUNITS_eval)
  show ?thesis using units_of_cell b d by simp
qed

text \<open>
  C8: a string whose length is not 81, or that contains a character that is neither a
  digit \<^verbatim>\<open>'1'\<close>..\<^verbatim>\<open>'9'\<close> nor \<^verbatim>\<open>'.'\<close>, makes \<^verbatim>\<open>grid_values\<close> raise
  (\<^verbatim>\<open>AssertionError\<close>), and \<^verbatim>\<open>solve\<close> with it, before \<^verbatim>\<open>search\<close> is entered. A string
  of length 81 over that alphabet is parsed: the box at position \<open>i\<close> in row-major
  order gets the clue digit, or \<^verbatim>\<open>'123456789'\<close> for \<^verbatim>\<open>'.'\<close>.
\<close>

theorem grid_values_validation:
  "(length grid \<noteq> 81 \<or> (\<exists>c \<in> set grid. c \<notin> set DIGITS \<and> c \<noteq> CHR ''.'')
      \<longrightarrow> grid_values grid = Inl AssertionError \<and> solve grid = Inl AssertionError) \<and>
   (length grid = 81 \<and> (\<forall>c \<in> set grid. c \<in> set DIGITS \<or> c = CHR ''.'')
      \<longrightarrow> (\<exists>values. grid_values grid = Inr values \<and> solve grid = Inr (search values) \<and>
            (\<forall>i < 81. values (BOXES ! i) =
                         (if grid ! i = CHR ''.'' then DIGITS else [grid ! i]))))"
proof (intro conjI impI)
  assume "length grid \<noteq> 81 \<or> (\<exists>c \<in> set grid. c \<notin> set DIGITS \<and> c \<noteq> CHR ''.'')"
  then have "\<not> well_formed grid" unfolding well_formed_def by auto
  then show "grid_values grid = Inl AssertionError" by (rule grid_values_bad)
  then show "solve grid = Inl AssertionError" by (simp add: solve_def)
next
  assume "length grid = 81 \<and> (\<forall>c \<in> set grid. c \<in> set DIGITS \<or> c = CHR ''.'')"
  then have wf: "well_formed grid" unfolding well_formed_def by simp
  let ?v = "dict (zip BOXES (map cell_of grid))"
  have "grid_values grid = Inr ?v" using wf by (rule grid_values_ok)
  moreover have "solve grid = Inr (search ?v)" using wf by (simp add: solve_def grid_values_ok)
  moreover have "\<forall>i < 81. ?v (BOXES ! i) = (if grid ! i = CHR ''.'' then DIGITS else [grid ! i])"
    using grid_values_cell [OF wf] by (simp add: cell_of_def)
  ultimately show "\<exists>values. grid_values grid = Inr values \<and> solve grid = Inr (search values) \<and>
            (\<forall>i < 81. values (BOXES ! i) =
                         (if grid ! i = CHR ''.'' then DIGITS else [grid ! i]))"
    by blast
qed

theorem grid_values_validation_witness:
  "solve ''12'' = Inl AssertionError \<and>
   solve ''2.............62....1....7...6..8...3...9...7...6..4...4....8....5x.............3''
     = Inl AssertionError \<and>
   (\<exists>values.
      grid_values ''2.............62....1....7...6..8...3...9...7...6..4...4....8....52.............3''
        = Inr values \<and> values ''A1'' = ''2'' \<and> values ''A2'' = ''123456789'')"
proof -
  let ?g = "''2.............62....1....7...6..8...3...9...7...6..4...4....8....52.............3''"
  let ?b = "''2.............62....1....7...6..8...3...9...7...6..4...4....8....5x.............3''"
  have 1: "solve ''12'' = Inl AssertionError"
    using grid_values_validation [of "''12''"] by simp
  have "\<exists>c \<in> set ?b. c \<notin> set DIGITS \<and> c \<noteq> CHR ''.''"
    by (simp add: DIGITS_def)
  then have 2: "solve ?b = Inl AssertionError"
    using grid_values_validation [of ?b] by blast
  have "length ?g = 81 \<and> (\<forall>c \<in> set ?g. c \<in> set DIGITS \<or> c = CHR ''.'')"
    by (simp add: DIGITS_def)
  then obtain "values" where v: "grid_values ?g = Inr values"
      "\<forall>i < 81. values (BOXES ! i) = (if ?g ! i = CHR ''.'' then DIGITS else [?g ! i])"
    using grid_values_validation [of ?g] by blast
  have "values (BOXES ! 0) = ''2''" "values (BOXES ! 1) = ''123456789''"
    using v(2) by (simp_all add: DIGITS_def)
  then have "values ''A1'' = ''2''" "values ''A2'' = ''123456789''"
    by (simp_all add: BOXES_eval)
  then show ?thesis using 1 2 v(1) by blast
qed

end
